theory Spec2Isabelle
  imports Main "HOL-Library.Char_ord" "HOL-Library.List_Lexorder"
begin

section \<open>Error taxonomy\<close>

text \<open>
  \<^verbatim>\<open>src/types/errors/ConfigurationError.ts\<close>: the tagged union \<open>ConfigurationError\<close>.
  The \<open>cause\<close> of a persistence or connection error is whatever the SQL client threw;
  on the in-memory store below the only statement that can throw is one naming a table
  that is not in the catalog.
\<close>

datatype SqlError = NoSuchTable string

datatype ConfigurationError =
    ConfigurationValidationError string string string
  | ConfigurationNotFoundError string
  | ConfigurationPersistenceError string SqlError
  | DatabaseConnectionError string SqlError

text \<open>
  The command layer and \<open>forceInitializeAllTables\<close> also fail with a plain JavaScript
  \<open>new Error(message)\<close>; their error channel is the union of both.
\<close>

datatype Failure = Config ConfigurationError | Error string

text \<open>
  \<open>String(error)\<close> as used by \<open>Effect.mapError((error) => new Error(String(error)))\<close>:
  an \<open>Error\<close> prints as \<open>Error: message\<close>, a plain tagged object as \<open>[object Object]\<close>.
\<close>

fun String_of :: "Failure \<Rightarrow> string" where
  "String_of (Error m) = ''Error: '' @ m"
| "String_of (Config e) = ''[object Object]''"

section \<open>The SQLite store\<close>

text \<open>
  \<^verbatim>\<open>src/infrastructure/database/ConfigurationRepository.ts\<close>: a row of the
  \<open>configuration\<close> table (its column \<open>value\<close> is the field \<open>rvalue\<close>). The store
  maps each table name of the catalog (\<open>sqlite_master\<close>) to its rows; a name that is
  not mapped is a table that does not exist.
\<close>

record ConfigurationRecord =
  key :: string
  rvalue :: string
  updated_at :: string

type_synonym sqlite = "string \<rightharpoonup> ConfigurationRecord list"

text \<open>\<open>CREATE TABLE IF NOT EXISTS configuration (...)\<close>\<close>

definition createConfigurationTable :: "sqlite \<Rightarrow> (ConfigurationError + unit) \<times> sqlite" where
  "createConfigurationTable db =
     (case db ''configuration'' of
        None \<Rightarrow> (Inr (), db(''configuration'' \<mapsto> []))
      | Some rows \<Rightarrow> (Inr (), db))"

text \<open>
  \<open>INSERT INTO configuration (key, value) VALUES (?, ?) ON CONFLICT(key) DO UPDATE SET
  value = excluded.value, updated_at = CURRENT_TIMESTAMP\<close>. The argument \<open>now\<close> is the
  value of \<open>CURRENT_TIMESTAMP\<close> when the statement runs.
\<close>

definition upsert :: "string \<Rightarrow> string \<Rightarrow> string \<Rightarrow> ConfigurationRecord list \<Rightarrow> ConfigurationRecord list" where
  "upsert now k v rows =
     (if k \<in> set (map key rows)
      then map (\<lambda>r. if key r = k then r\<lparr>rvalue := v, updated_at := now\<rparr> else r) rows
      else rows @ [\<lparr>key = k, rvalue = v, updated_at = now\<rparr>])"

definition setConfiguration :: "string \<Rightarrow> string \<Rightarrow> string \<Rightarrow> sqlite \<Rightarrow> (ConfigurationError + unit) \<times> sqlite" where
  "setConfiguration now k v db =
     (case db ''configuration'' of
        None \<Rightarrow> (Inl (ConfigurationPersistenceError ''set'' (NoSuchTable ''configuration'')), db)
      | Some rows \<Rightarrow> (Inr (), db(''configuration'' \<mapsto> upsert now k v rows)))"

text \<open>\<open>SELECT key, value, updated_at FROM configuration ORDER BY key\<close>\<close>

definition getAllConfiguration :: "sqlite \<Rightarrow> ConfigurationError + ConfigurationRecord list" where
  "getAllConfiguration db =
     (case db ''configuration'' of
        None \<Rightarrow> Inl (ConfigurationPersistenceError ''getAll'' (NoSuchTable ''configuration''))
      | Some rows \<Rightarrow> Inr (sort_key key rows))"

section \<open>Table lifecycle\<close>

text \<open>\<^verbatim>\<open>src/infrastructure/database/DatabaseInitialization.ts\<close>. Console output is left out.\<close>

record TableInfo =
  name :: string
  exists :: bool
  rowCount :: nat

record InitResult =
  created :: "string list"
  skipped :: "string list"

text \<open>
  \<open>checkTableStatus\<close>: the catalog query decides \<open>exists\<close>; \<open>COUNT(*)\<close> runs only on an
  existing table, so neither statement throws on the store.
\<close>

definition checkTableStatus :: "string \<Rightarrow> sqlite \<Rightarrow> ConfigurationError + TableInfo" where
  "checkTableStatus tableName db =
     (case db tableName of
        None \<Rightarrow> Inr \<lparr>name = tableName, exists = False, rowCount = 0\<rparr>
      | Some rows \<Rightarrow> Inr \<lparr>name = tableName, exists = True, rowCount = length rows\<rparr>)"

text \<open>\<open>Effect.all\<close> over a list: the results in order, or the first failure.\<close>

fun Effect_all :: "('e + 'a) list \<Rightarrow> 'e + 'a list" where
  "Effect_all [] = Inr []"
| "Effect_all (Inl e # rest) = Inl e"
| "Effect_all (Inr x # rest) = (case Effect_all rest of Inl e \<Rightarrow> Inl e | Inr xs \<Rightarrow> Inr (x # xs))"

definition tables :: "string list" where
  "tables = [''configuration'']"

definition getDatabaseStatus :: "sqlite \<Rightarrow> ConfigurationError + TableInfo list" where
  "getDatabaseStatus db = Effect_all (map (\<lambda>tableName. checkTableStatus tableName db) tables)"

definition initializeTablesIfNeeded :: "sqlite \<Rightarrow> (ConfigurationError + InitResult) \<times> sqlite" where
  "initializeTablesIfNeeded db =
     (case getDatabaseStatus db of
        Inl e \<Rightarrow> (Inl e, db)
      | Inr statuses \<Rightarrow>
          (let tablesWithData = filter (\<lambda>s. exists s \<and> rowCount s > 0) statuses in
           if length tablesWithData > 0
           then (Inr \<lparr>created = [], skipped = map name tablesWithData\<rparr>, db)
           else
             (let missingTables = filter (\<lambda>s. \<not> exists s) statuses in
              if length missingTables = 0
              then (Inr \<lparr>created = [], skipped = []\<rparr>, db)
              else
                (case createConfigurationTable db of
                   (Inl e, db') \<Rightarrow> (Inl e, db')
                 | (Inr u, db') \<Rightarrow> (Inr \<lparr>created = map name missingTables, skipped = []\<rparr>, db')))))"

definition forceInitializeAllTables :: "sqlite \<Rightarrow> (Failure + unit) \<times> sqlite" where
  "forceInitializeAllTables db =
     (case getDatabaseStatus db of
        Inl e \<Rightarrow> (Inl (Config e), db)
      | Inr statuses \<Rightarrow>
          (let existingTables = filter (\<lambda>s. exists s) statuses in
           if length existingTables > 0
           then (Inl (Error ''Force initialization requires explicit confirmation. Use --force-confirm flag.''), db)
           else
             (case createConfigurationTable db of
                (Inl e, db') \<Rightarrow> (Inl (Config e), db')
              | (Inr u, db') \<Rightarrow> (Inr (), db'))))"

text \<open>
  \<^verbatim>\<open>src/cli/commands/database.ts\<close>, \<open>databaseForceInitCommand\<close>: the handler of
  \<open>database force-init [--force-confirm]\<close>, run on the store that the \<open>--database\<close> path opens.
\<close>

definition forceConfirmMessage :: string where
  "forceConfirmMessage =
     ''Force initialization requires --force-confirm flag.'' @ [CHR 0x0A] @
     ''This operation will DELETE ALL existing tables and data.'' @ [CHR 0x0A] @
     ''Use: database force-init --force-confirm''"

definition databaseForceInitCommand :: "bool \<Rightarrow> sqlite \<Rightarrow> (Failure + unit) \<times> sqlite" where
  "databaseForceInitCommand forceConfirm db =
     (if \<not> forceConfirm then (Inl (Error forceConfirmMessage), db)
      else
        (case forceInitializeAllTables db of
           (Inl e, db') \<Rightarrow> (Inl (Error (String_of e)), db')
         | (Inr u, db') \<Rightarrow> (Inr (), db')))"


text \<open>Observations of the store used to state properties.\<close>

definition records :: "sqlite \<Rightarrow> ConfigurationRecord list" where
  "records db = (case db ''configuration'' of None \<Rightarrow> [] | Some rows \<Rightarrow> rows)"

definition hasData :: "sqlite \<Rightarrow> string \<Rightarrow> bool" where
  "hasData db t = (case db t of None \<Rightarrow> False | Some rows \<Rightarrow> length rows > 0)"

section \<open>JavaScript values and built-ins the code calls\<close>

text \<open>
  A \<open>Date\<close> object holds a time value in milliseconds since the epoch, or \<open>NaN\<close>
  (\<open>Invalid Date\<close>). The only numbers the code produces are the results of
  \<open>parseInt\<close> and the integer literal of the defaults: an integer or \<open>NaN\<close>.
  A value whose static type is \<open>unknown\<close> at a date position is a string or a \<open>Date\<close>.
\<close>

datatype jsdate = ValidDate int | InvalidDate

datatype jsnumber = NaN | IntNum int

datatype date_value = Str string | DateObj jsdate

datatype json = JString string | JNumber jsnumber | JDate jsdate | JObject "(string \<times> json) list"

text \<open>\<open>s.startsWith(p)\<close> and \<open>s.endsWith(p)\<close>.\<close>

fun startsWith :: "string \<Rightarrow> string \<Rightarrow> bool" where
  "startsWith s [] = True"
| "startsWith [] (p # ps) = False"
| "startsWith (c # cs) (p # ps) = (c = p \<and> startsWith cs ps)"

definition endsWith :: "string \<Rightarrow> string \<Rightarrow> bool" where
  "endsWith s p = startsWith (rev s) (rev p)"

text \<open>
  \<open>parseInt(value, 10)\<close>: leading white space is skipped, one sign is read, then the
  longest run of decimal digits; with no digit the result is \<open>NaN\<close>. Whatever follows
  the digits is ignored.
\<close>

definition isWhiteSpace :: "char \<Rightarrow> bool" where
  "isWhiteSpace c = (c \<in> set [CHR 0x09, CHR 0x0A, CHR 0x0B, CHR 0x0C, CHR 0x0D, CHR 0x20, CHR 0xA0])"

definition isDigit :: "char \<Rightarrow> bool" where
  "isDigit c = (c \<in> set ''0123456789'')"

definition digitValue :: "char \<Rightarrow> int" where
  "digitValue c = int (of_char c) - 48"

definition digitsValue :: "string \<Rightarrow> int" where
  "digitsValue Z = foldl (\<lambda>a c. 10 * a + digitValue c) 0 Z"

definition parseInt :: "string \<Rightarrow> jsnumber" where
  "parseInt s =
     (let S = dropWhile isWhiteSpace s;
          sign = (if startsWith S ''-'' then -1 else 1);
          S' = (if startsWith S ''+'' \<or> startsWith S ''-'' then tl S else S);
          Z = takeWhile isDigit S'
      in if Z = [] then NaN else IntNum (sign * digitsValue Z))"

text \<open>\<open>Number.prototype.toString()\<close> on an integer (below \<open>1e21\<close> in magnitude) or \<open>NaN\<close>.\<close>

definition digitChar :: "nat \<Rightarrow> char" where
  "digitChar n = ''0123456789'' ! n"

function digitsOf :: "nat \<Rightarrow> string" where
  "digitsOf n = (if n < 10 then [digitChar n] else digitsOf (n div 10) @ [digitChar (n mod 10)])"
  by pat_completeness auto
termination
  by (relation "measure id") auto

fun numberToString :: "jsnumber \<Rightarrow> string" where
  "numberToString NaN = ''NaN''"
| "numberToString (IntNum n) = (if n < 0 then ''-'' @ digitsOf (nat (- n)) else digitsOf (nat n))"

text \<open>
  \<open>Date.prototype.toString()\<close> and \<open>toISOString()\<close>. The calendar fields come from the
  day number by the usual civil-calendar arithmetic. \<open>toString\<close> prints local time to the
  second, without milliseconds; the process time zone is taken to be UTC.
\<close>

definition padZero :: "nat \<Rightarrow> nat \<Rightarrow> string" where
  "padZero w n = replicate (w - length (digitsOf n)) (CHR ''0'') @ digitsOf n"

definition civilFromDays :: "int \<Rightarrow> int \<times> int \<times> int" where
  "civilFromDays days =
     (let z = days + 719468;
          era = z div 146097;
          doe = z mod 146097;
          yoe = (doe - doe div 1460 + doe div 36524 - doe div 146096) div 365;
          doy = doe - (365 * yoe + yoe div 4 - yoe div 100);
          mp = (5 * doy + 2) div 153;
          d = doy - (153 * mp + 2) div 5 + 1;
          m = (if mp < 10 then mp + 3 else mp - 9);
          y = yoe + era * 400 + (if m \<le> 2 then 1 else 0)
      in (y, m, d))"

definition weekdayNames :: "string list" where
  "weekdayNames = [''Sun'', ''Mon'', ''Tue'', ''Wed'', ''Thu'', ''Fri'', ''Sat'']"

definition monthNames :: "string list" where
  "monthNames = [''Jan'', ''Feb'', ''Mar'', ''Apr'', ''May'', ''Jun'',
                 ''Jul'', ''Aug'', ''Sep'', ''Oct'', ''Nov'', ''Dec'']"

definition timeOfDay :: "int \<Rightarrow> string" where
  "timeOfDay sod =
     padZero 2 (nat (sod div 3600)) @ '':'' @ padZero 2 (nat (sod mod 3600 div 60)) @ '':'' @
     padZero 2 (nat (sod mod 60))"

definition dateToString :: "jsdate \<Rightarrow> string" where
  "dateToString d =
     (case d of
        InvalidDate \<Rightarrow> ''Invalid Date''
      | ValidDate t \<Rightarrow>
          (let secs = t div 1000;
               days = secs div 86400;
               (y, m, dd) = civilFromDays days
           in weekdayNames ! nat ((days + 4) mod 7) @ '' '' @ monthNames ! nat (m - 1) @ '' '' @
              padZero 2 (nat dd) @ '' '' @
              (if y < 0 then ''-'' @ padZero 4 (nat (- y)) else padZero 4 (nat y)) @ '' '' @
              timeOfDay (secs mod 86400) @ '' GMT+0000 (Coordinated Universal Time)''))"

definition toISOString :: "int \<Rightarrow> string" where
  "toISOString t =
     (let days = t div 86400000;
          (y, m, dd) = civilFromDays days
      in (if 0 \<le> y \<and> y \<le> 9999 then padZero 4 (nat y)
          else if y < 0 then ''-'' @ padZero 6 (nat (- y)) else ''+'' @ padZero 6 (nat y)) @
         ''-'' @ padZero 2 (nat m) @ ''-'' @ padZero 2 (nat dd) @ ''T'' @
         timeOfDay (t mod 86400000 div 1000) @ ''.'' @ padZero 3 (nat (t mod 1000)) @ ''Z'')"

text \<open>\<open>date.toISOString().split('T')[0]\<close>\<close>

definition isoDay :: "int \<Rightarrow> string" where
  "isoDay t = takeWhile (\<lambda>c. c \<noteq> CHR ''T'') (toISOString t)"

section \<open>Paths (\<open>node:path\<close>, POSIX)\<close>

fun splitOn :: "char \<Rightarrow> string \<Rightarrow> string list" where
  "splitOn c [] = [[]]"
| "splitOn c (x # xs) =
     (if x = c then [] # splitOn c xs
      else (case splitOn c xs of [] \<Rightarrow> [[x]] | w # ws \<Rightarrow> (x # w) # ws))"

fun joinWith :: "string \<Rightarrow> string list \<Rightarrow> string" where
  "joinWith sep [] = []"
| "joinWith sep [w] = w"
| "joinWith sep (w # v # ws) = w @ sep @ joinWith sep (v # ws)"

text \<open>
  \<open>normalizeString\<close> without leave to climb above the root: empty segments and \<open>.\<close>
  are dropped, \<open>..\<close> removes the segment before it if there is one.
\<close>

definition normalizeSegments :: "string list \<Rightarrow> string list" where
  "normalizeSegments segs =
     foldl (\<lambda>acc seg. if seg = [] \<or> seg = ''.'' then acc
                      else if seg = ''..'' then butlast acc
                      else acc @ [seg]) [] segs"

text \<open>
  \<open>path.resolve(p)\<close> with one argument: \<open>p\<close> if it is absolute, else \<open>p\<close> under the
  working directory \<open>cwd\<close> (\<open>process.cwd()\<close>, an absolute path), normalised.
\<close>

definition resolve :: "string \<Rightarrow> string \<Rightarrow> string" where
  "resolve cwd p =
     (let resolvedPath = (if p = [] then cwd @ ''/''
                          else if startsWith p ''/'' then p @ ''/''
                          else cwd @ ''/'' @ p @ ''/'')
      in ''/'' @ joinWith ''/'' (normalizeSegments (splitOn (CHR ''/'') resolvedPath)))"

text \<open>
  \<open>path.dirname(p)\<close>: scanning from the end and never looking at index 0, trailing slashes
  are skipped, then the last segment; \<open>endIndex\<close> is the index of the slash before it.
\<close>

definition dirname :: "string \<Rightarrow> string" where
  "dirname p =
     (if p = [] then ''.''
      else
        (let hasRoot = startsWith p ''/'';
             afterSlashes = dropWhile (\<lambda>c. c = CHR ''/'') (rev (tl p));
             upToSlash = dropWhile (\<lambda>c. c \<noteq> CHR ''/'') afterSlashes;
             endIndex = length upToSlash
         in if upToSlash = [] then (if hasRoot then ''/'' else ''.'')
            else if hasRoot \<and> endIndex = 1 then ''//''
            else take endIndex p))"

section \<open>Configuration schema and defaults\<close>

text \<open>
  \<^verbatim>\<open>src/unnamed/part_001\<close> (\<open>types/domain/Configuration\<close>). The type parameter is the
  type of \<open>startDate\<close>: \<open>date_value\<close> for an object before decoding (\<open>DEFAULT_CONFIG\<close>,
  the argument of \<open>validateConfiguration\<close>), \<open>jsdate\<close> for the decoded \<open>AppConfig\<close>.
\<close>

record ThetaDataConfig =
  baseUrl :: string
  maxConcurrentRequests :: jsnumber

record 'd ProcessingConfig =
  startDate :: 'd
  outputDirectory :: string
  tempDirectory :: string

record DatabaseConfig =
  path :: string

record 'd AppConfig =
  thetaData :: ThetaDataConfig
  processing :: "'d ProcessingConfig"
  database :: DatabaseConfig

definition DEFAULT_CONFIG :: "date_value AppConfig" where
  "DEFAULT_CONFIG =
     \<lparr>thetaData = \<lparr>baseUrl = ''http://localhost:25510'', maxConcurrentRequests = IntNum 4\<rparr>,
      processing = \<lparr>startDate = Str ''2024-01-01'', outputDirectory = ''./data/parquet'',
                    tempDirectory = ''./data/temp''\<rparr>,
      database = \<lparr>path = ''./data/spx-pipeline.db''\<rparr>\<rparr>"

text \<open>
  What the code takes from its platform and libraries without fixing it: the \<open>Date\<close>
  constructor on a string, \<open>TreeFormatter.formatErrorSync\<close>, \<open>JSON.stringify\<close> and the
  working directory.
\<close>

datatype ParseIssue = ExpectedString | PatternMismatch | NotAnInteger | NotBetween | TooShort

datatype ParseError = ParseError "string list" ParseIssue

record Runtime =
  newDate :: "string \<Rightarrow> jsdate"
  formatErrorSync :: "ParseError \<Rightarrow> string"
  JSON_stringify :: "json \<Rightarrow> string"
  cwd :: string

text \<open>
  The regular expressions of the schema. \<open>/^https?:\/\/.+$/\<close>: the scheme, then at least
  one character up to the end of the string, none of them a line terminator (which \<open>.\<close>
  does not match). \<open>/\.db$/\<close>: the string ends with \<open>.db\<close>.
\<close>

definition isLineTerminator :: "char \<Rightarrow> bool" where
  "isLineTerminator c = (c \<in> set [CHR 0x0A, CHR 0x0D])"

definition restOfLine :: "string \<Rightarrow> bool" where
  "restOfLine r = (r \<noteq> [] \<and> filter isLineTerminator r = [])"

definition matchesHttpUrl :: "string \<Rightarrow> bool" where
  "matchesHttpUrl s =
     (if startsWith s ''https://'' then restOfLine (drop 8 s)
      else if startsWith s ''http://'' then restOfLine (drop 7 s)
      else False)"

definition matchesDotDb :: "string \<Rightarrow> bool" where
  "matchesDotDb s = endsWith s ''.db''"


text \<open>
  The field schemas, decoded as \<open>Schema.decodeUnknown\<close> does. \<open>Schema.DateFromString\<close>
  turns any string into \<open>new Date(s)\<close>, an invalid date included, and refuses what is
  not a string. \<open>Schema.int()\<close> asks for a safe integer.
\<close>

definition decodeBaseUrl :: "string \<Rightarrow> ParseIssue + string" where
  "decodeBaseUrl url = (if matchesHttpUrl url then Inr url else Inl PatternMismatch)"

definition decodeMaxConcurrentRequests :: "jsnumber \<Rightarrow> ParseIssue + jsnumber" where
  "decodeMaxConcurrentRequests n =
     (case n of
        NaN \<Rightarrow> Inl NotAnInteger
      | IntNum i \<Rightarrow>
          if 9007199254740991 < \<bar>i\<bar> then Inl NotAnInteger
          else if i < 1 \<or> 10 < i then Inl NotBetween
          else Inr n)"

definition decodeStartDate :: "Runtime \<Rightarrow> date_value \<Rightarrow> ParseIssue + jsdate" where
  "decodeStartDate rt v =
     (case v of Str s \<Rightarrow> Inr (newDate rt s) | DateObj d \<Rightarrow> Inl ExpectedString)"

definition decodeMinLength1 :: "string \<Rightarrow> ParseIssue + string" where
  "decodeMinLength1 s = (if 1 \<le> length s then Inr s else Inl TooShort)"

definition decodeDatabasePath :: "string \<Rightarrow> ParseIssue + string" where
  "decodeDatabasePath s =
     (if length s < 1 then Inl TooShort
      else if matchesDotDb s then Inr s
      else Inl PatternMismatch)"

text \<open>
  \<open>validateConfiguration = Schema.decodeUnknown(AppConfig)\<close>: the fields in the order the
  structs declare them, stopping at the first that fails.
\<close>

definition validateConfiguration :: "Runtime \<Rightarrow> date_value AppConfig \<Rightarrow> ParseError + jsdate AppConfig" where
  "validateConfiguration rt config =
     (case decodeBaseUrl (baseUrl (thetaData config)) of
        Inl i \<Rightarrow> Inl (ParseError [''thetaData'', ''baseUrl''] i)
      | Inr u \<Rightarrow>
     (case decodeMaxConcurrentRequests (maxConcurrentRequests (thetaData config)) of
        Inl i \<Rightarrow> Inl (ParseError [''thetaData'', ''maxConcurrentRequests''] i)
      | Inr n \<Rightarrow>
     (case decodeStartDate rt (startDate (processing config)) of
        Inl i \<Rightarrow> Inl (ParseError [''processing'', ''startDate''] i)
      | Inr d \<Rightarrow>
     (case decodeMinLength1 (outputDirectory (processing config)) of
        Inl i \<Rightarrow> Inl (ParseError [''processing'', ''outputDirectory''] i)
      | Inr od \<Rightarrow>
     (case decodeMinLength1 (tempDirectory (processing config)) of
        Inl i \<Rightarrow> Inl (ParseError [''processing'', ''tempDirectory''] i)
      | Inr td \<Rightarrow>
     (case decodeDatabasePath (path (database config)) of
        Inl i \<Rightarrow> Inl (ParseError [''database'', ''path''] i)
      | Inr p \<Rightarrow>
          Inr \<lparr>thetaData = \<lparr>baseUrl = u, maxConcurrentRequests = n\<rparr>,
               processing = \<lparr>startDate = d, outputDirectory = od, tempDirectory = td\<rparr>,
               database = \<lparr>path = p\<rparr>\<rparr>))))))"

text \<open>The single-field validators exported beside it.\<close>

definition validateThetaDataUrl :: "string \<Rightarrow> ParseError + string" where
  "validateThetaDataUrl url =
     (case decodeBaseUrl url of Inl i \<Rightarrow> Inl (ParseError [] i) | Inr u \<Rightarrow> Inr u)"

definition validateDate :: "Runtime \<Rightarrow> date_value \<Rightarrow> ParseError + jsdate" where
  "validateDate rt date =
     (case decodeStartDate rt date of Inl i \<Rightarrow> Inl (ParseError [] i) | Inr d \<Rightarrow> Inr d)"

definition validateDirectoryPath :: "string \<Rightarrow> ParseError + string" where
  "validateDirectoryPath p =
     (case decodeMinLength1 p of Inl i \<Rightarrow> Inl (ParseError [] i) | Inr s \<Rightarrow> Inr s)"

definition validateDatabasePath :: "string \<Rightarrow> ParseError + string" where
  "validateDatabasePath p =
     (case decodeDatabasePath p of Inl i \<Rightarrow> Inl (ParseError [] i) | Inr s \<Rightarrow> Inr s)"

text \<open>
  The decoded type \<open>AppConfig\<close>: what a value of it satisfies beyond its field types.
\<close>

definition isValidAppConfig :: "jsdate AppConfig \<Rightarrow> bool" where
  "isValidAppConfig c =
     (matchesHttpUrl (baseUrl (thetaData c)) \<and>
      (case maxConcurrentRequests (thetaData c) of NaN \<Rightarrow> False | IntNum i \<Rightarrow> 1 \<le> i \<and> i \<le> 10) \<and>
      1 \<le> length (outputDirectory (processing c)) \<and>
      1 \<le> length (tempDirectory (processing c)) \<and>
      1 \<le> length (path (database c)) \<and> matchesDotDb (path (database c)))"

text \<open>An \<open>AppConfig\<close> passed where the static type is \<open>unknown\<close>.\<close>

definition asUnknown :: "jsdate AppConfig \<Rightarrow> date_value AppConfig" where
  "asUnknown c =
     \<lparr>thetaData = thetaData c,
      processing = \<lparr>startDate = DateObj (startDate (processing c)),
                    outputDirectory = outputDirectory (processing c),
                    tempDirectory = tempDirectory (processing c)\<rparr>,
      database = database c\<rparr>"

text \<open>\<^verbatim>\<open>src/cli/commands/config.ts\<close>, \<open>defaultConfigToAppConfig\<close>.\<close>

definition defaultConfigToAppConfig :: "Runtime \<Rightarrow> jsdate AppConfig" where
  "defaultConfigToAppConfig rt =
     \<lparr>thetaData = thetaData DEFAULT_CONFIG,
      processing = \<lparr>startDate = newDate rt ''2024-01-01'',
                    outputDirectory = outputDirectory (processing DEFAULT_CONFIG),
                    tempDirectory = tempDirectory (processing DEFAULT_CONFIG)\<rparr>,
      database = database DEFAULT_CONFIG\<rparr>"


section \<open>Configuration service\<close>

text \<open>\<^verbatim>\<open>src/cli/config/ConfigurationService.ts\<close>\<close>

definition THETADATA_BASE_URL :: string where
  "THETADATA_BASE_URL = ''thetadata.baseUrl''"

definition THETADATA_MAX_CONCURRENT_REQUESTS :: string where
  "THETADATA_MAX_CONCURRENT_REQUESTS = ''thetadata.maxConcurrentRequests''"

definition PROCESSING_START_DATE :: string where
  "PROCESSING_START_DATE = ''processing.startDate''"

definition PROCESSING_OUTPUT_DIRECTORY :: string where
  "PROCESSING_OUTPUT_DIRECTORY = ''processing.outputDirectory''"

definition PROCESSING_TEMP_DIRECTORY :: string where
  "PROCESSING_TEMP_DIRECTORY = ''processing.tempDirectory''"

definition DATABASE_PATH :: string where
  "DATABASE_PATH = ''database.path''"

definition ConfigKeys :: "string list" where
  "ConfigKeys = [THETADATA_BASE_URL, THETADATA_MAX_CONCURRENT_REQUESTS, PROCESSING_START_DATE,
                 PROCESSING_OUTPUT_DIRECTORY, PROCESSING_TEMP_DIRECTORY, DATABASE_PATH]"

definition fromSchemaError :: "Runtime \<Rightarrow> string \<Rightarrow> string \<Rightarrow> ParseError \<Rightarrow> ConfigurationError" where
  "fromSchemaError rt k v schemaError = ConfigurationValidationError k v (formatErrorSync rt schemaError)"

text \<open>\<open>validateByKey\<close>: the \<open>switch\<close> over the key, in the order of its cases.\<close>

definition validateByKey :: "Runtime \<Rightarrow> string \<Rightarrow> string \<Rightarrow> ConfigurationError + unit" where
  "validateByKey rt k v =
     (if k = THETADATA_BASE_URL then
        (case validateThetaDataUrl v of
           Inl e \<Rightarrow> Inl (fromSchemaError rt k v e) | Inr u \<Rightarrow> Inr ())
      else if k = PROCESSING_START_DATE then
        (case validateDate rt (Str v) of
           Inl e \<Rightarrow> Inl (fromSchemaError rt k v e) | Inr d \<Rightarrow> Inr ())
      else if k = PROCESSING_OUTPUT_DIRECTORY \<or> k = PROCESSING_TEMP_DIRECTORY then
        (case validateDirectoryPath v of
           Inl e \<Rightarrow> Inl (fromSchemaError rt k v e) | Inr p \<Rightarrow> Inr ())
      else if k = DATABASE_PATH then
        (case validateDatabasePath v of
           Inl e \<Rightarrow> Inl (fromSchemaError rt k v e) | Inr p \<Rightarrow> Inr ())
      else if k = THETADATA_MAX_CONCURRENT_REQUESTS then
        (case parseInt v of
           NaN \<Rightarrow> Inl (ConfigurationValidationError k v ''Must be a number between 1 and 10'')
         | IntNum numValue \<Rightarrow>
             if numValue < 1 \<or> 10 < numValue
             then Inl (ConfigurationValidationError k v ''Must be a number between 1 and 10'')
             else Inr ())
      else Inl (ConfigurationValidationError k v ''Unknown configuration key''))"

text \<open>
  A \<open>Record<string, string>\<close> is an association list; \<open>acc[k] = v\<close> overwrites or
  appends, \<open>configData[k]\<close> is \<open>map_of\<close>, and \<open>x || d\<close> takes \<open>d\<close> when \<open>x\<close> is
  \<open>undefined\<close> or the empty string.
\<close>

fun setProperty :: "string \<Rightarrow> string \<Rightarrow> (string \<times> string) list \<Rightarrow> (string \<times> string) list" where
  "setProperty k v [] = [(k, v)]"
| "setProperty k v ((k', v') # rest) =
     (if k' = k then (k, v) # rest else (k', v') # setProperty k v rest)"

definition orDefault :: "string option \<Rightarrow> string \<Rightarrow> string" where
  "orDefault x d = (case x of None \<Rightarrow> d | Some v \<Rightarrow> if v = [] then d else v)"

definition dateValueToString :: "date_value \<Rightarrow> string" where
  "dateValueToString v = (case v of Str s \<Rightarrow> s | DateObj d \<Rightarrow> dateToString d)"

definition serializeConfig :: "date_value AppConfig \<Rightarrow> (string \<times> string) list" where
  "serializeConfig config =
     [(THETADATA_BASE_URL, baseUrl (thetaData config)),
      (THETADATA_MAX_CONCURRENT_REQUESTS, numberToString (maxConcurrentRequests (thetaData config))),
      (PROCESSING_START_DATE, dateValueToString (startDate (processing config))),
      (PROCESSING_OUTPUT_DIRECTORY, outputDirectory (processing config)),
      (PROCESSING_TEMP_DIRECTORY, tempDirectory (processing config)),
      (DATABASE_PATH, path (database config))]"

definition jsonOfConfig :: "date_value AppConfig \<Rightarrow> json" where
  "jsonOfConfig c =
     JObject
       [(''thetaData'', JObject [(''baseUrl'', JString (baseUrl (thetaData c))),
                                 (''maxConcurrentRequests'', JNumber (maxConcurrentRequests (thetaData c)))]),
        (''processing'', JObject [(''startDate'', (case startDate (processing c) of
                                                     Str s \<Rightarrow> JString s | DateObj d \<Rightarrow> JDate d)),
                                  (''outputDirectory'', JString (outputDirectory (processing c))),
                                  (''tempDirectory'', JString (tempDirectory (processing c)))]),
        (''database'', JObject [(''path'', JString (path (database c)))])]"

definition configObjectOf :: "(string \<times> string) list \<Rightarrow> date_value AppConfig" where
  "configObjectOf configData =
     \<lparr>thetaData =
        \<lparr>baseUrl = orDefault (map_of configData THETADATA_BASE_URL) (baseUrl (thetaData DEFAULT_CONFIG)),
         maxConcurrentRequests =
           parseInt (orDefault (map_of configData THETADATA_MAX_CONCURRENT_REQUESTS)
                       (numberToString (maxConcurrentRequests (thetaData DEFAULT_CONFIG))))\<rparr>,
      processing =
        \<lparr>startDate = Str (orDefault (map_of configData PROCESSING_START_DATE)
                              (dateValueToString (startDate (processing DEFAULT_CONFIG)))),
         outputDirectory = orDefault (map_of configData PROCESSING_OUTPUT_DIRECTORY)
                             (outputDirectory (processing DEFAULT_CONFIG)),
         tempDirectory = orDefault (map_of configData PROCESSING_TEMP_DIRECTORY)
                           (tempDirectory (processing DEFAULT_CONFIG))\<rparr>,
      database =
        \<lparr>path = orDefault (map_of configData DATABASE_PATH) (path (database DEFAULT_CONFIG))\<rparr>\<rparr>"

definition deserializeConfig :: "Runtime \<Rightarrow> (string \<times> string) list \<Rightarrow> ConfigurationError + jsdate AppConfig" where
  "deserializeConfig rt configData =
     (let configObject = configObjectOf configData
      in case validateConfiguration rt configObject of
           Inl e \<Rightarrow> Inl (fromSchemaError rt ''config'' (JSON_stringify rt (jsonOfConfig configObject)) e)
         | Inr c \<Rightarrow> Inr c)"

definition configDataOf :: "ConfigurationRecord list \<Rightarrow> (string \<times> string) list" where
  "configDataOf configRecords = foldl (\<lambda>acc r. setProperty (key r) (rvalue r) acc) [] configRecords"

definition getFullConfiguration :: "Runtime \<Rightarrow> sqlite \<Rightarrow> ConfigurationError + date_value AppConfig" where
  "getFullConfiguration rt db =
     (case getAllConfiguration db of
        Inl e \<Rightarrow> Inl e
      | Inr configRecords \<Rightarrow>
          (let configData = configDataOf configRecords
           in if length (map fst configData) = 0 then Inr DEFAULT_CONFIG
              else (case deserializeConfig rt configData of
                      Inl e \<Rightarrow> Inl e
                    | Inr c \<Rightarrow> Inr (asUnknown c))))"

definition setConfigurationValue :: "Runtime \<Rightarrow> string \<Rightarrow> string \<Rightarrow> string \<Rightarrow> sqlite \<Rightarrow> (ConfigurationError + unit) \<times> sqlite" where
  "setConfigurationValue rt now k v db =
     (case validateByKey rt k v of
        Inl e \<Rightarrow> (Inl e, db)
      | Inr u \<Rightarrow> setConfiguration now k v db)"

definition validateFullConfiguration :: "Runtime \<Rightarrow> sqlite \<Rightarrow> ConfigurationError + jsdate AppConfig" where
  "validateFullConfiguration rt db =
     (case getAllConfiguration db of
        Inl e \<Rightarrow> Inl e
      | Inr configRecords \<Rightarrow>
          (case deserializeConfig rt (configDataOf configRecords) of
             Inl e \<Rightarrow> Inl e
           | Inr config \<Rightarrow>
               (case validateConfiguration rt (asUnknown config) of
                  Inl e \<Rightarrow> Inl (fromSchemaError rt ''fullConfig''
                                  (JSON_stringify rt (jsonOfConfig (asUnknown config))) e)
                | Inr c \<Rightarrow> Inr c)))"


section \<open>Cross-field rules\<close>

text \<open>
  \<^verbatim>\<open>src/types/domain/ConfigurationValidation.ts\<close>, \<open>validateCrossFieldRules\<close>. The
  argument \<open>today\<close> is the time value of \<open>new Date()\<close> after \<open>setHours(0, 0, 0, 0)\<close>:
  the caller's clock, set back to local midnight. Both comparisons are false on an
  invalid date, which therefore passes. \<open>minDate\<close> is \<open>new Date("2020-01-01")\<close>, midnight UTC.
\<close>

definition minDate :: int where
  "minDate = 1577836800000"

definition validateCrossFieldRules :: "Runtime \<Rightarrow> int \<Rightarrow> jsdate AppConfig \<Rightarrow> ConfigurationError + jsdate AppConfig" where
  "validateCrossFieldRules rt today config =
     (let outputAbsolute = resolve (cwd rt) (outputDirectory (processing config));
          tempAbsolute = resolve (cwd rt) (tempDirectory (processing config))
      in if outputAbsolute = tempAbsolute then
           Inl (ConfigurationValidationError ''processing''
                  (JSON_stringify rt (JObject [(''outputDirectory'', JString outputAbsolute),
                                               (''tempDirectory'', JString tempAbsolute)]))
                  ''Output directory and temp directory must be different'')
         else
           (let dbAbsolute = resolve (cwd rt) (path (database config));
                dbDir = dirname dbAbsolute
            in if startsWith dbDir tempAbsolute then
                 Inl (ConfigurationValidationError ''database.path'' (path (database config))
                        ''Database should not be stored in temporary directory'')
               else
                 (case startDate (processing config) of
                    InvalidDate \<Rightarrow> Inr config
                  | ValidDate t \<Rightarrow>
                      if today < t then
                        Inl (ConfigurationValidationError ''processing.startDate'' (isoDay t)
                               ''Start date cannot be in the future'')
                      else if t < minDate then
                        Inl (ConfigurationValidationError ''processing.startDate'' (isoDay t)
                               ''Start date cannot be before 2020-01-01'')
                      else Inr config)))"

section \<open>Rules in the specification's words, and a runtime for worked examples\<close>

text \<open>
  "Integer in [1,10]" read on the raw string: a decimal numeral, nothing else, whose
  value lies between 1 and 10.
\<close>

definition specIntegerInRange :: "string \<Rightarrow> bool" where
  "specIntegerInRange v = (v \<noteq> [] \<and> filter isDigit v = v \<and> 1 \<le> digitsValue v \<and> digitsValue v \<le> 10)"

text \<open>
  "The database file's parent directory is the temp directory", both resolved to
  absolute form.
\<close>

definition specDatabaseInTemp :: "string \<Rightarrow> jsdate AppConfig \<Rightarrow> bool" where
  "specDatabaseInTemp wd config =
     (dirname (resolve wd (path (database config))) = resolve wd (tempDirectory (processing config)))"

text \<open>
  The parent directory of the database file is the temp directory or lies below it.
\<close>

definition databaseUnderTemp :: "string \<Rightarrow> jsdate AppConfig \<Rightarrow> bool" where
  "databaseUnderTemp wd config =
     (let dbDir = dirname (resolve wd (path (database config)));
          tempAbsolute = resolve wd (tempDirectory (processing config))
      in dbDir = tempAbsolute \<or> startsWith dbDir (tempAbsolute @ ''/''))"

text \<open>
  A runtime that agrees with ECMAScript on the date strings of the examples below; its
  error formatter and \<open>JSON.stringify\<close> are placeholders, on which no result depends.
\<close>

definition sampleRuntime :: Runtime where
  "sampleRuntime =
     \<lparr>newDate = (\<lambda>s.
        if s = ''2024-01-01'' then ValidDate 1704067200000
        else if s = ''Mon Jan 01 2024 00:00:00 GMT+0000 (Coordinated Universal Time)''
        then ValidDate 1704067200000
        else if s = ''Mon Jan 01 2024 12:34:56 GMT+0000 (Coordinated Universal Time)''
        then ValidDate 1704112496000
        else InvalidDate),
      formatErrorSync = (\<lambda>e. ''ParseError''),
      JSON_stringify = (\<lambda>j. ''{}''),
      cwd = ''/app''\<rparr>"

definition sampleConfig :: "jsdate AppConfig" where
  "sampleConfig = defaultConfigToAppConfig sampleRuntime"


text \<open>A store whose \<open>configuration\<close> table holds one row, as after one \<open>set\<close>.\<close>

definition populatedDb :: sqlite where
  "populatedDb =
     Map.empty(''configuration'' \<mapsto>
       [\<lparr>key = ''test.key1'', rvalue = ''value1'', updated_at = ''2024-06-01 10:00:00''\<rparr>])"

text \<open>Configurations and a clock reading for the worked examples of the cross-field rules.\<close>

definition sampleToday :: int where
  "sampleToday = 1750000000000"

definition sameDirConfig :: "jsdate AppConfig" where
  "sameDirConfig =
     sampleConfig\<lparr>processing :=
       (processing sampleConfig)\<lparr>outputDirectory := ''./data/x'', tempDirectory := ''./data/x''\<rparr>\<rparr>"

definition dbInTempConfig :: "jsdate AppConfig" where
  "dbInTempConfig = sampleConfig\<lparr>database := \<lparr>path = ''./data/temp/app.db''\<rparr>\<rparr>"

definition nestedDbConfig :: "jsdate AppConfig" where
  "nestedDbConfig = sampleConfig\<lparr>database := \<lparr>path = ''./data/temp/cache/app.db''\<rparr>\<rparr>"

definition startingAt :: "int \<Rightarrow> jsdate AppConfig" where
  "startingAt t = sampleConfig\<lparr>processing := (processing sampleConfig)\<lparr>startDate := ValidDate t\<rparr>\<rparr>"

text \<open>
  What the per-key validator of \<open>validateByKey\<close> rejects, key by key. No string is
  rejected for \<open>processing.startDate\<close>.
\<close>

definition rejectedByValidator :: "string \<Rightarrow> string \<Rightarrow> bool" where
  "rejectedByValidator k v =
     (if k = THETADATA_BASE_URL then \<not> matchesHttpUrl v
      else if k = THETADATA_MAX_CONCURRENT_REQUESTS then
        (case parseInt v of NaN \<Rightarrow> True | IntNum n \<Rightarrow> n < 1 \<or> 10 < n)
      else if k = PROCESSING_OUTPUT_DIRECTORY \<or> k = PROCESSING_TEMP_DIRECTORY then v = []
      else if k = DATABASE_PATH then (v = [] \<or> \<not> matchesDotDb v)
      else False)"

text \<open>A store whose \<open>configuration\<close> table exists and is empty.\<close>

definition emptyTableDb :: sqlite where
  "emptyTableDb = Map.empty(''configuration'' \<mapsto> [])"

text \<open>Stores holding one record whose value its key's rule refuses.\<close>

definition emptyValueDb :: sqlite where
  "emptyValueDb =
     Map.empty(''configuration'' \<mapsto>
       [\<lparr>key = PROCESSING_OUTPUT_DIRECTORY, rvalue = [], updated_at = ''2024-06-01 10:00:00''\<rparr>])"

definition badPathDb :: sqlite where
  "badPathDb =
     Map.empty(''configuration'' \<mapsto>
       [\<lparr>key = DATABASE_PATH, rvalue = ''./database.txt'', updated_at = ''2024-06-01 10:00:00''\<rparr>])"

section \<open>Table lifecycle: safe and forced initialisation\<close>

lemma getDatabaseStatus_configuration:
  "getDatabaseStatus db = Inr [case db ''configuration'' of
        None \<Rightarrow> \<lparr>name = ''configuration'', exists = False, rowCount = 0\<rparr>
      | Some rows \<Rightarrow> \<lparr>name = ''configuration'', exists = True, rowCount = length rows\<rparr>]"
  by (simp add: getDatabaseStatus_def tables_def checkTableStatus_def split: option.split)

lemma initializeTablesIfNeeded_with_data:
  assumes "hasData db ''configuration''"
  shows "initializeTablesIfNeeded db = (Inr \<lparr>created = [], skipped = [''configuration'']\<rparr>, db)"
  using assms
  by (auto simp add: initializeTablesIfNeeded_def getDatabaseStatus_configuration hasData_def
      split: option.splits)

lemma populatedDb_hasData: "list_ex (hasData populatedDb) tables"
  by (simp add: populatedDb_def tables_def hasData_def)

text \<open>
  C1. Whenever a known table exists and holds at least one row, \<open>initializeTablesIfNeeded\<close>
  returns successfully with \<open>created = []\<close> and \<open>skipped\<close> the tables that hold data, and
  the store it leaves is the store it found: nothing is created, altered or emptied.
  Ten runs in a row leave the store as it was.
\<close>

theorem safe_init_skips_when_data_exists:
  assumes "list_ex (hasData db) tables"
  shows "initializeTablesIfNeeded db =
           (Inr \<lparr>created = [], skipped = filter (hasData db) tables\<rparr>, db)
       \<and> ((\<lambda>d. snd (initializeTablesIfNeeded d)) ^^ 10) db = db"
proof -
  from assms have h: "hasData db ''configuration''" by (simp add: tables_def)
  have one: "initializeTablesIfNeeded db =
      (Inr \<lparr>created = [], skipped = filter (hasData db) tables\<rparr>, db)"
    using initializeTablesIfNeeded_with_data[OF h] h by (simp add: tables_def)
  have step: "snd (initializeTablesIfNeeded db) = db" using one by simp
  have "((\<lambda>d. snd (initializeTablesIfNeeded d)) ^^ n) db = db" for n
    by (induction n) (simp_all add: step)
  with one show ?thesis by blast
qed

theorem safe_init_skips_when_data_exists_witness:
  "list_ex (hasData populatedDb) tables
   \<and> initializeTablesIfNeeded populatedDb =
       (Inr \<lparr>created = [], skipped = [''configuration'']\<rparr>, populatedDb)
   \<and> records (((\<lambda>d. snd (initializeTablesIfNeeded d)) ^^ 10) populatedDb) = records populatedDb"
proof -
  have f: "filter (hasData populatedDb) tables = [''configuration'']"
    by (simp add: populatedDb_def tables_def hasData_def)
  show ?thesis
    using safe_init_skips_when_data_exists[OF populatedDb_hasData] populatedDb_hasData f by simp
qed

text \<open>
  C7. On a store with none of the known tables, \<open>initializeTablesIfNeeded\<close> creates the
  known tables, empty, and reports them all in \<open>created\<close>; run again on the result it
  reports nothing created, nothing skipped, and leaves the store unchanged.
\<close>

theorem safe_init_fresh_then_idempotent:
  assumes "list_all (\<lambda>t. db t = None) tables"
  shows "initializeTablesIfNeeded db =
           (Inr \<lparr>created = tables, skipped = []\<rparr>, db(''configuration'' \<mapsto> []))
       \<and> initializeTablesIfNeeded (db(''configuration'' \<mapsto> [])) =
           (Inr \<lparr>created = [], skipped = []\<rparr>, db(''configuration'' \<mapsto> []))"
  using assms
  by (simp add: initializeTablesIfNeeded_def getDatabaseStatus_configuration tables_def
      createConfigurationTable_def)

theorem safe_init_fresh_then_idempotent_witness:
  "list_all (\<lambda>t. (Map.empty :: sqlite) t = None) tables
   \<and> initializeTablesIfNeeded Map.empty =
       (Inr \<lparr>created = [''configuration''], skipped = []\<rparr>, Map.empty(''configuration'' \<mapsto> []))
   \<and> initializeTablesIfNeeded (Map.empty(''configuration'' \<mapsto> [])) =
       (Inr \<lparr>created = [], skipped = []\<rparr>, Map.empty(''configuration'' \<mapsto> []))"
proof -
  have h: "list_all (\<lambda>t. (Map.empty :: sqlite) t = None) tables" by (simp add: tables_def)
  show ?thesis using safe_init_fresh_then_idempotent[OF h] h by (simp add: tables_def)
qed

text \<open>
  C3. Without the confirmation flag \<open>database force-init\<close> fails with the error that
  asks for \<open>--force-confirm\<close>, whatever the store holds, and the store is unchanged.
\<close>

theorem force_init_unconfirmed_fails_unchanged:
  "databaseForceInitCommand False db = (Inl (Error forceConfirmMessage), db)"
  by (simp add: databaseForceInitCommand_def)

theorem force_init_unconfirmed_fails_unchanged_witness:
  "databaseForceInitCommand False populatedDb = (Inl (Error forceConfirmMessage), populatedDb)"
  by (rule force_init_unconfirmed_fails_unchanged)

text \<open>
  C2. With the confirmation flag and a populated \<open>configuration\<close> table,
  \<open>database force-init\<close> fails with the error of \<open>forceInitializeAllTables\<close> and leaves
  the table and its row in place: nothing is dropped or recreated.
\<close>

theorem force_init_confirmed_keeps_populated_table:
  "databaseForceInitCommand True populatedDb =
     (Inl (Error ''Error: Force initialization requires explicit confirmation. Use --force-confirm flag.''),
      populatedDb)
   \<and> hasData populatedDb ''configuration''"
  by (simp add: databaseForceInitCommand_def forceInitializeAllTables_def
      getDatabaseStatus_configuration populatedDb_def hasData_def)

section \<open>Repository: the upsert touches one key\<close>

lemma upsert_other_keys:
  "filter (\<lambda>r. key r \<noteq> k) (upsert now k v rows) = filter (\<lambda>r. key r \<noteq> k) rows"
proof -
  have "filter (\<lambda>r. key r \<noteq> k)
          (map (\<lambda>r. if key r = k then r\<lparr>rvalue := v, updated_at := now\<rparr> else r) xs)
      = filter (\<lambda>r. key r \<noteq> k) xs" for xs :: "ConfigurationRecord list"
    by (induction xs) auto
  then show ?thesis by (simp add: upsert_def)
qed

text \<open>
  C10. \<open>setConfiguration k v\<close> leaves the records of every other key as they were, value
  and \<open>updated_at\<close> included and in the same order, and touches no other table.
\<close>

theorem setConfiguration_frame:
  "filter (\<lambda>r. key r \<noteq> k) (records (snd (setConfiguration now k v db)))
     = filter (\<lambda>r. key r \<noteq> k) (records db)
   \<and> (\<forall>t. t \<noteq> ''configuration'' \<longrightarrow> snd (setConfiguration now k v db) t = db t)"
  by (cases "db ''configuration''") (simp_all add: setConfiguration_def records_def upsert_other_keys)

theorem setConfiguration_frame_witness:
  "filter (\<lambda>r. key r \<noteq> ''other.key'')
     (records (snd (setConfiguration ''2024-06-02 09:00:00'' ''other.key'' ''v2'' populatedDb)))
     = [\<lparr>key = ''test.key1'', rvalue = ''value1'', updated_at = ''2024-06-01 10:00:00''\<rparr>]
   \<and> ''x'' \<noteq> ''configuration''
   \<and> snd (setConfiguration ''2024-06-02 09:00:00'' ''other.key'' ''v2'' populatedDb) ''x'' = populatedDb ''x''"
proof -
  have r: "filter (\<lambda>r. key r \<noteq> ''other.key'') (records populatedDb)
     = [\<lparr>key = ''test.key1'', rvalue = ''value1'', updated_at = ''2024-06-01 10:00:00''\<rparr>]"
    by (simp add: records_def populatedDb_def)
  have n: "''x'' \<noteq> ''configuration''" by simp
  from setConfiguration_frame[of "''other.key''" "''2024-06-02 09:00:00''" "''v2''" populatedDb] r n
  show ?thesis by simp
qed


section \<open>Cross-field rules: what is rejected\<close>

lemma startsWith_append: "startsWith (p @ r) p"
  by (induction p) simp_all

lemma startsWith_self: "startsWith p p"
  using startsWith_append[of p "[]"] by simp

lemma startsWith_shorter: "startsWith s (p @ q) \<Longrightarrow> startsWith s p"
  by (induction s p rule: startsWith.induct) simp_all

lemma databaseUnderTemp_prefix:
  assumes "databaseUnderTemp wd config"
  shows "startsWith (dirname (resolve wd (path (database config)))) (resolve wd (tempDirectory (processing config)))"
  using assms startsWith_self startsWith_shorter
  by (auto simp add: databaseUnderTemp_def Let_def)

text \<open>
  C8 (amended). \<open>validateCrossFieldRules\<close> fails with the error of the first rule broken,
  each with its own key and reason: the output and temp directories resolve to the same
  path; the database file's directory is the temp directory or lies below it; the start
  date is later than \<open>today\<close>; the start date is before 2020-01-01. It returns the
  configuration unchanged when the directories differ, the database directory does not
  begin with the temp path, and the start date lies between 2020-01-01 and \<open>today\<close>.
\<close>

theorem validateCrossFieldRules_cases:
  fixes rt :: Runtime and today t :: int and config :: "jsdate AppConfig"
  defines "out \<equiv> resolve (cwd rt) (outputDirectory (processing config))"
      and "tmp \<equiv> resolve (cwd rt) (tempDirectory (processing config))"
      and "dbDir \<equiv> dirname (resolve (cwd rt) (path (database config)))"
      and "d \<equiv> startDate (processing config)"
  shows
    "(out = tmp \<longrightarrow>
        validateCrossFieldRules rt today config =
          Inl (ConfigurationValidationError ''processing''
                 (JSON_stringify rt (JObject [(''outputDirectory'', JString out), (''tempDirectory'', JString tmp)]))
                 ''Output directory and temp directory must be different''))
   \<and> (out \<noteq> tmp \<and> databaseUnderTemp (cwd rt) config \<longrightarrow>
        validateCrossFieldRules rt today config =
          Inl (ConfigurationValidationError ''database.path'' (path (database config))
                 ''Database should not be stored in temporary directory''))
   \<and> (out \<noteq> tmp \<and> \<not> startsWith dbDir tmp \<and> d = ValidDate t \<and> today < t \<longrightarrow>
        validateCrossFieldRules rt today config =
          Inl (ConfigurationValidationError ''processing.startDate'' (isoDay t)
                 ''Start date cannot be in the future''))
   \<and> (out \<noteq> tmp \<and> \<not> startsWith dbDir tmp \<and> d = ValidDate t \<and> t \<le> today \<and> t < minDate \<longrightarrow>
        validateCrossFieldRules rt today config =
          Inl (ConfigurationValidationError ''processing.startDate'' (isoDay t)
                 ''Start date cannot be before 2020-01-01''))
   \<and> (out \<noteq> tmp \<and> \<not> startsWith dbDir tmp \<and> d = ValidDate t \<and> minDate \<le> t \<and> t \<le> today \<longrightarrow>
        validateCrossFieldRules rt today config = Inr config)"
  using databaseUnderTemp_prefix[of "cwd rt" config]
  unfolding out_def tmp_def dbDir_def d_def
  by (auto simp add: validateCrossFieldRules_def Let_def)


theorem validateCrossFieldRules_cases_witness:
  "validateCrossFieldRules sampleRuntime sampleToday sameDirConfig =
     Inl (ConfigurationValidationError ''processing'' ''{}''
            ''Output directory and temp directory must be different'')
   \<and> validateCrossFieldRules sampleRuntime sampleToday dbInTempConfig =
     Inl (ConfigurationValidationError ''database.path'' ''./data/temp/app.db''
            ''Database should not be stored in temporary directory'')
   \<and> validateCrossFieldRules sampleRuntime sampleToday (startingAt (sampleToday + 86400000)) =
     Inl (ConfigurationValidationError ''processing.startDate'' ''2025-06-16''
            ''Start date cannot be in the future'')
   \<and> validateCrossFieldRules sampleRuntime sampleToday (startingAt 1577750400000) =
     Inl (ConfigurationValidationError ''processing.startDate'' ''2019-12-31''
            ''Start date cannot be before 2020-01-01'')
   \<and> validateCrossFieldRules sampleRuntime sampleToday (startingAt 1704067200000) =
     Inr (startingAt 1704067200000)"
proof -
  note T = validateCrossFieldRules_cases
  have h1: "resolve (cwd sampleRuntime) (outputDirectory (processing sameDirConfig))
          = resolve (cwd sampleRuntime) (tempDirectory (processing sameDirConfig))"
    by code_simp
  have v1: "JSON_stringify sampleRuntime j = ''{}''" for j
    by (simp add: sampleRuntime_def)
  have c1: "validateCrossFieldRules sampleRuntime sampleToday sameDirConfig =
     Inl (ConfigurationValidationError ''processing'' ''{}''
            ''Output directory and temp directory must be different'')"
    using T[where rt = sampleRuntime and config = sameDirConfig and today = sampleToday and t = 0] h1
    unfolding v1 by blast
  have h2: "resolve (cwd sampleRuntime) (outputDirectory (processing dbInTempConfig))
          \<noteq> resolve (cwd sampleRuntime) (tempDirectory (processing dbInTempConfig))
          \<and> databaseUnderTemp (cwd sampleRuntime) dbInTempConfig"
    by code_simp
  have p2: "path (database dbInTempConfig) = ''./data/temp/app.db''"
    by (simp add: dbInTempConfig_def)
  have c2: "validateCrossFieldRules sampleRuntime sampleToday dbInTempConfig =
     Inl (ConfigurationValidationError ''database.path'' ''./data/temp/app.db''
            ''Database should not be stored in temporary directory'')"
    using T[where rt = sampleRuntime and config = dbInTempConfig and today = sampleToday and t = 0] h2
    unfolding p2 by blast
  have h3: "resolve (cwd sampleRuntime) (outputDirectory (processing (startingAt x)))
          \<noteq> resolve (cwd sampleRuntime) (tempDirectory (processing (startingAt x)))
          \<and> \<not> startsWith (dirname (resolve (cwd sampleRuntime) (path (database (startingAt x)))))
                 (resolve (cwd sampleRuntime) (tempDirectory (processing (startingAt x))))
          \<and> startDate (processing (startingAt x)) = ValidDate x" for x
  proof -
    have "resolve (cwd sampleRuntime) (outputDirectory (processing sampleConfig))
          \<noteq> resolve (cwd sampleRuntime) (tempDirectory (processing sampleConfig))
          \<and> \<not> startsWith (dirname (resolve (cwd sampleRuntime) (path (database sampleConfig))))
                 (resolve (cwd sampleRuntime) (tempDirectory (processing sampleConfig)))"
      by code_simp
    then show ?thesis by (simp add: startingAt_def)
  qed
  have i3: "isoDay (sampleToday + 86400000) = ''2025-06-16''" by code_simp
  have o3: "sampleToday < sampleToday + 86400000" by simp
  have c3: "validateCrossFieldRules sampleRuntime sampleToday (startingAt (sampleToday + 86400000)) =
     Inl (ConfigurationValidationError ''processing.startDate'' ''2025-06-16''
            ''Start date cannot be in the future'')"
    using T[where rt = sampleRuntime and config = "startingAt (sampleToday + 86400000)"
              and today = sampleToday and t = "sampleToday + 86400000"] h3 o3
    unfolding i3 by blast
  have i4: "isoDay 1577750400000 = ''2019-12-31''" by code_simp
  have o4: "(1577750400000::int) \<le> sampleToday \<and> 1577750400000 < minDate"
    by (simp add: sampleToday_def minDate_def)
  have c4: "validateCrossFieldRules sampleRuntime sampleToday (startingAt 1577750400000) =
     Inl (ConfigurationValidationError ''processing.startDate'' ''2019-12-31''
            ''Start date cannot be before 2020-01-01'')"
    using T[where rt = sampleRuntime and config = "startingAt 1577750400000"
              and today = sampleToday and t = 1577750400000] h3 o4
    unfolding i4 by blast
  have o5: "minDate \<le> 1704067200000 \<and> (1704067200000::int) \<le> sampleToday"
    by (simp add: sampleToday_def minDate_def)
  have c5: "validateCrossFieldRules sampleRuntime sampleToday (startingAt 1704067200000) =
     Inr (startingAt 1704067200000)"
    using T[where rt = sampleRuntime and config = "startingAt 1704067200000"
              and today = sampleToday and t = 1704067200000] h3 o5
    by blast
  from c1 c2 c3 c4 c5 show ?thesis by simp
qed

text \<open>
  C8 as stated fails: with the database file two levels below the temp directory, its
  parent directory is not the temp directory and the other two rules hold, yet the
  configuration is rejected.
\<close>

theorem crossField_rejects_database_below_temp:
  "\<not> specDatabaseInTemp (cwd sampleRuntime) nestedDbConfig
   \<and> resolve (cwd sampleRuntime) (outputDirectory (processing nestedDbConfig))
       \<noteq> resolve (cwd sampleRuntime) (tempDirectory (processing nestedDbConfig))
   \<and> startDate (processing nestedDbConfig) = ValidDate 1704067200000
   \<and> minDate \<le> 1704067200000 \<and> 1704067200000 \<le> sampleToday
   \<and> validateCrossFieldRules sampleRuntime sampleToday nestedDbConfig =
       Inl (ConfigurationValidationError ''database.path'' ''./data/temp/cache/app.db''
              ''Database should not be stored in temporary directory'')"
  by code_simp



section \<open>Configuration service: writes\<close>

lemmas key_defs = THETADATA_BASE_URL_def THETADATA_MAX_CONCURRENT_REQUESTS_def PROCESSING_START_DATE_def
  PROCESSING_OUTPUT_DIRECTORY_def PROCESSING_TEMP_DIRECTORY_def DATABASE_PATH_def

lemma validateByKey_url:
  "\<not> matchesHttpUrl v \<Longrightarrow> \<exists>reason. validateByKey rt THETADATA_BASE_URL v =
     Inl (ConfigurationValidationError THETADATA_BASE_URL v reason)"
  by (simp add: validateByKey_def fromSchemaError_def validateThetaDataUrl_def decodeBaseUrl_def)

lemma validateByKey_max:
  "(case parseInt v of NaN \<Rightarrow> True | IntNum n \<Rightarrow> n < 1 \<or> 10 < n) \<Longrightarrow>
   \<exists>reason. validateByKey rt THETADATA_MAX_CONCURRENT_REQUESTS v =
     Inl (ConfigurationValidationError THETADATA_MAX_CONCURRENT_REQUESTS v reason)"
  by (cases "parseInt v") (simp_all add: validateByKey_def key_defs)

lemma validateByKey_dir:
  "k = PROCESSING_OUTPUT_DIRECTORY \<or> k = PROCESSING_TEMP_DIRECTORY \<Longrightarrow>
   \<exists>reason. validateByKey rt k [] = Inl (ConfigurationValidationError k [] reason)"
  by (auto simp add: validateByKey_def key_defs fromSchemaError_def validateDirectoryPath_def
      decodeMinLength1_def)

lemma validateByKey_db:
  "v = [] \<or> \<not> matchesDotDb v \<Longrightarrow>
   \<exists>reason. validateByKey rt DATABASE_PATH v = Inl (ConfigurationValidationError DATABASE_PATH v reason)"
  by (auto simp add: validateByKey_def key_defs fromSchemaError_def validateDatabasePath_def
      decodeDatabasePath_def)

lemma validateByKey_rejected:
  assumes "rejectedByValidator k v"
  shows "\<exists>reason. validateByKey rt k v = Inl (ConfigurationValidationError k v reason)"
proof -
  consider (url) "k = THETADATA_BASE_URL" "\<not> matchesHttpUrl v"
    | (max) "k = THETADATA_MAX_CONCURRENT_REQUESTS"
            "(case parseInt v of NaN \<Rightarrow> True | IntNum n \<Rightarrow> n < 1 \<or> 10 < n)"
    | (dir) "k = PROCESSING_OUTPUT_DIRECTORY \<or> k = PROCESSING_TEMP_DIRECTORY" "v = []"
    | (db) "k = DATABASE_PATH" "v = [] \<or> \<not> matchesDotDb v"
    using assms unfolding rejectedByValidator_def by (metis (full_types))
  then show ?thesis
  proof cases
    case url then show ?thesis using validateByKey_url by simp
  next
    case max then show ?thesis using validateByKey_max by simp
  next
    case dir then show ?thesis using validateByKey_dir[of k rt] by simp
  next
    case db then show ?thesis using validateByKey_db by simp
  qed
qed

lemma validateByKey_unknown:
  assumes "k \<notin> set ConfigKeys"
  shows "validateByKey rt k v = Inl (ConfigurationValidationError k v ''Unknown configuration key'')"
  using assms by (simp add: validateByKey_def ConfigKeys_def)


text \<open>
  C5 (amended). When the validator of a known key rejects the value (the URL pattern
  fails; \<open>parseInt\<close> gives \<open>NaN\<close> or a number outside 1..10; a directory is empty; the
  database path is empty or does not end in \<open>.db\<close>), \<open>setConfigurationValue\<close> fails with
  a validation error naming that key and value, and the store is unchanged. For a key
  outside the six known keys it fails with "Unknown configuration key" and the store is
  unchanged.
\<close>

theorem setConfigurationValue_rejects:
  "(rejectedByValidator k v \<longrightarrow>
      (\<exists>reason. setConfigurationValue rt now k v db = (Inl (ConfigurationValidationError k v reason), db)))
   \<and> (k \<notin> set ConfigKeys \<longrightarrow>
      setConfigurationValue rt now k v db =
        (Inl (ConfigurationValidationError k v ''Unknown configuration key''), db))"
proof (intro conjI impI)
  assume "rejectedByValidator k v"
  from validateByKey_rejected[OF this, of rt]
  show "\<exists>reason. setConfigurationValue rt now k v db = (Inl (ConfigurationValidationError k v reason), db)"
    by (auto simp add: setConfigurationValue_def)
next
  assume "k \<notin> set ConfigKeys"
  from validateByKey_unknown[OF this, of rt v]
  show "setConfigurationValue rt now k v db =
        (Inl (ConfigurationValidationError k v ''Unknown configuration key''), db)"
    by (simp add: setConfigurationValue_def)
qed

theorem setConfigurationValue_rejects_witness:
  "rejectedByValidator DATABASE_PATH ''./database.txt''
   \<and> (\<exists>reason. setConfigurationValue sampleRuntime ''t1'' DATABASE_PATH ''./database.txt'' emptyTableDb
         = (Inl (ConfigurationValidationError DATABASE_PATH ''./database.txt'' reason), emptyTableDb))
   \<and> ''log.level'' \<notin> set ConfigKeys
   \<and> setConfigurationValue sampleRuntime ''t1'' ''log.level'' ''debug'' emptyTableDb =
        (Inl (ConfigurationValidationError ''log.level'' ''debug'' ''Unknown configuration key''), emptyTableDb)"
proof -
  have h1: "rejectedByValidator DATABASE_PATH ''./database.txt''" by code_simp
  have h2: "''log.level'' \<notin> set ConfigKeys" by code_simp
  from setConfigurationValue_rejects[of DATABASE_PATH "''./database.txt''" sampleRuntime "''t1''" emptyTableDb] h1
  have c1: "\<exists>reason. setConfigurationValue sampleRuntime ''t1'' DATABASE_PATH ''./database.txt'' emptyTableDb
         = (Inl (ConfigurationValidationError DATABASE_PATH ''./database.txt'' reason), emptyTableDb)"
    by blast
  from setConfigurationValue_rejects[of "''log.level''" "''debug''" sampleRuntime "''t1''" emptyTableDb] h2
  have c2: "setConfigurationValue sampleRuntime ''t1'' ''log.level'' ''debug'' emptyTableDb =
        (Inl (ConfigurationValidationError ''log.level'' ''debug'' ''Unknown configuration key''), emptyTableDb)"
    by blast
  from h1 h2 c1 c2 show ?thesis by blast
qed

text \<open>
  C5 as stated fails: \<open>5.5\<close> is not an integer in [1,10], yet
  \<open>setConfigurationValue\<close> accepts it for \<open>thetadata.maxConcurrentRequests\<close>
  (\<open>parseInt\<close> reads the leading \<open>5\<close>) and stores the raw string.
\<close>

theorem setValue_accepts_non_integer:
  "\<not> specIntegerInRange ''5.5''
   \<and> setConfigurationValue sampleRuntime ''t1'' THETADATA_MAX_CONCURRENT_REQUESTS ''5.5'' emptyTableDb =
       (Inr (), Map.empty(''configuration'' \<mapsto>
          [\<lparr>key = THETADATA_MAX_CONCURRENT_REQUESTS, rvalue = ''5.5'', updated_at = ''t1''\<rparr>]))"
proof -
  have a: "\<not> specIntegerInRange ''5.5''" by code_simp
  have b: "validateByKey sampleRuntime THETADATA_MAX_CONCURRENT_REQUESTS ''5.5'' = Inr ()" by code_simp
  have c: "upsert ''t1'' THETADATA_MAX_CONCURRENT_REQUESTS ''5.5'' [] =
     [\<lparr>key = THETADATA_MAX_CONCURRENT_REQUESTS, rvalue = ''5.5'', updated_at = ''t1''\<rparr>]"
    by (simp add: upsert_def)
  show ?thesis
    using a b c by (simp add: setConfigurationValue_def setConfiguration_def emptyTableDb_def)
qed

section \<open>Configuration service: reads and round trip\<close>

lemma map_of_setProperty: "map_of (setProperty k v al) = (map_of al)(k \<mapsto> v)"
  by (induction al) auto

lemma configDataOf_snoc:
  "configDataOf (rs @ [x]) = setProperty (key x) (rvalue x) (configDataOf rs)"
  by (simp add: configDataOf_def)

lemma map_of_configDataOf:
  assumes "distinct (map key rs)" "r \<in> set rs"
  shows "map_of (configDataOf rs) (key r) = Some (rvalue r)"
  using assms
proof (induction rs rule: rev_induct)
  case Nil
  then show ?case by simp
next
  case (snoc x xs)
  show ?case
  proof (cases "r = x")
    case True
    then show ?thesis by (simp add: configDataOf_snoc map_of_setProperty)
  next
    case False
    from snoc.prems False have rin: "r \<in> set xs" by simp
    from snoc.prems have "key x \<notin> key ` set xs" by simp
    with rin have ne: "key r \<noteq> key x" by (metis imageI)
    from snoc.prems have "distinct (map key xs)" by simp
    with snoc.IH rin have "map_of (configDataOf xs) (key r) = Some (rvalue r)" by simp
    with ne show ?thesis by (simp add: configDataOf_snoc map_of_setProperty)
  qed
qed

lemma distinct_keys_sort:
  assumes "distinct (map key rs)"
  shows "distinct (map key (sort_key key rs))"
proof -
  from assms have "distinct rs" "inj_on key (set rs)" by (simp_all add: distinct_map)
  then show ?thesis by (simp add: distinct_map)
qed

lemma map_of_sorted_configData:
  assumes "distinct (map key rs)" "r \<in> set rs"
  shows "map_of (configDataOf (sort_key key rs)) (key r) = Some (rvalue r)"
  using map_of_configDataOf[OF distinct_keys_sort[OF assms(1)], of r] assms(2) by simp

lemma validateConfiguration_Inr:
  assumes "validateConfiguration rt c = Inr c'"
  shows "matchesHttpUrl (baseUrl (thetaData c))
       \<and> (\<exists>i. maxConcurrentRequests (thetaData c) = IntNum i \<and> 1 \<le> i \<and> i \<le> 10)
       \<and> matchesDotDb (path (database c))"
proof -
  from assms obtain u where u: "decodeBaseUrl (baseUrl (thetaData c)) = Inr u"
    by (cases "decodeBaseUrl (baseUrl (thetaData c))") (simp_all add: validateConfiguration_def)
  from assms u obtain n where n: "decodeMaxConcurrentRequests (maxConcurrentRequests (thetaData c)) = Inr n"
    by (cases "decodeMaxConcurrentRequests (maxConcurrentRequests (thetaData c))")
       (simp_all add: validateConfiguration_def)
  from assms u n obtain d where d: "decodeStartDate rt (startDate (processing c)) = Inr d"
    by (cases "decodeStartDate rt (startDate (processing c))") (simp_all add: validateConfiguration_def)
  from assms u n d obtain od where od: "decodeMinLength1 (outputDirectory (processing c)) = Inr od"
    by (cases "decodeMinLength1 (outputDirectory (processing c))") (simp_all add: validateConfiguration_def)
  from assms u n d od obtain td where td: "decodeMinLength1 (tempDirectory (processing c)) = Inr td"
    by (cases "decodeMinLength1 (tempDirectory (processing c))") (simp_all add: validateConfiguration_def)
  from assms u n d od td obtain p where p: "decodeDatabasePath (path (database c)) = Inr p"
    by (cases "decodeDatabasePath (path (database c))") (simp_all add: validateConfiguration_def)
  from u have 1: "matchesHttpUrl (baseUrl (thetaData c))"
    by (simp add: decodeBaseUrl_def split: if_splits)
  from n have 2: "\<exists>i. maxConcurrentRequests (thetaData c) = IntNum i \<and> 1 \<le> i \<and> i \<le> 10"
    by (cases "maxConcurrentRequests (thetaData c)")
       (auto simp add: decodeMaxConcurrentRequests_def split: if_splits)
  from p have 3: "matchesDotDb (path (database c))"
    by (simp add: decodeDatabasePath_def split: if_splits)
  from 1 2 3 show ?thesis by blast
qed

lemma validateConfiguration_ok:
  assumes "matchesHttpUrl (baseUrl (thetaData c))"
    and "maxConcurrentRequests (thetaData c) = IntNum i" "1 \<le> i" "i \<le> 10"
    and "startDate (processing c) = Str s"
    and "1 \<le> length (outputDirectory (processing c))" "1 \<le> length (tempDirectory (processing c))"
    and "1 \<le> length (path (database c))" "matchesDotDb (path (database c))"
  shows "validateConfiguration rt c =
           Inr \<lparr>thetaData = \<lparr>baseUrl = baseUrl (thetaData c), maxConcurrentRequests = IntNum i\<rparr>,
                processing = \<lparr>startDate = newDate rt s,
                              outputDirectory = outputDirectory (processing c),
                              tempDirectory = tempDirectory (processing c)\<rparr>,
                database = \<lparr>path = path (database c)\<rparr>\<rparr>"
  using assms
  by (auto simp add: validateConfiguration_def decodeBaseUrl_def decodeMaxConcurrentRequests_def
      decodeStartDate_def decodeMinLength1_def decodeDatabasePath_def)


lemma default_fields_valid:
  "matchesHttpUrl (baseUrl (thetaData DEFAULT_CONFIG))"
  "maxConcurrentRequests (thetaData DEFAULT_CONFIG) = IntNum 4"
  "startDate (processing DEFAULT_CONFIG) = Str ''2024-01-01''"
  "1 \<le> length (outputDirectory (processing DEFAULT_CONFIG))"
  "1 \<le> length (tempDirectory (processing DEFAULT_CONFIG))"
  "1 \<le> length (path (database DEFAULT_CONFIG))"
  "matchesDotDb (path (database DEFAULT_CONFIG))"
  by code_simp+

lemma validateConfiguration_override_path:
  assumes "1 \<le> length p" "matchesDotDb p"
  shows "validateConfiguration rt (DEFAULT_CONFIG\<lparr>database := \<lparr>path = p\<rparr>\<rparr>) =
           Inr ((defaultConfigToAppConfig rt)\<lparr>database := \<lparr>path = p\<rparr>\<rparr>)"
proof -
  let ?c = "DEFAULT_CONFIG\<lparr>database := \<lparr>path = p\<rparr>\<rparr>"
  have "validateConfiguration rt ?c =
           Inr \<lparr>thetaData = \<lparr>baseUrl = baseUrl (thetaData ?c), maxConcurrentRequests = IntNum 4\<rparr>,
                processing = \<lparr>startDate = newDate rt ''2024-01-01'',
                              outputDirectory = outputDirectory (processing ?c),
                              tempDirectory = tempDirectory (processing ?c)\<rparr>,
                database = \<lparr>path = path (database ?c)\<rparr>\<rparr>"
    by (rule validateConfiguration_ok) (use assms default_fields_valid in simp_all)
  then show ?thesis
    by (simp add: defaultConfigToAppConfig_def DEFAULT_CONFIG_def)
qed

lemma configObjectOf_single_path:
  "configObjectOf [(DATABASE_PATH, ''./x.db'')] = DEFAULT_CONFIG\<lparr>database := \<lparr>path = ''./x.db''\<rparr>\<rparr>"
  by code_simp

lemma x_db_valid: "1 \<le> length ''./x.db''" "matchesDotDb ''./x.db''"
  by code_simp+

text \<open>
  C4. On an existing, empty \<open>configuration\<close> table \<open>getFullConfiguration\<close> returns
  \<open>DEFAULT_CONFIG\<close> itself. \<open>setConfigurationValue "database.path" "./x.db"\<close> then
  succeeds and stores that one record, after which \<open>getFullConfiguration\<close> returns
  the validated defaults (\<open>defaultConfigToAppConfig\<close>: the default start date decoded
  to a \<open>Date\<close>) with \<open>database.path = "./x.db"\<close> and every other field at its default.
\<close>

theorem getFull_defaults_and_single_override:
  assumes "db ''configuration'' = Some []"
  shows "getFullConfiguration rt db = Inr DEFAULT_CONFIG
       \<and> setConfigurationValue rt now DATABASE_PATH ''./x.db'' db =
           (Inr (), db(''configuration'' \<mapsto> [\<lparr>key = DATABASE_PATH, rvalue = ''./x.db'', updated_at = now\<rparr>]))
       \<and> getFullConfiguration rt
            (db(''configuration'' \<mapsto> [\<lparr>key = DATABASE_PATH, rvalue = ''./x.db'', updated_at = now\<rparr>])) =
           Inr (asUnknown ((defaultConfigToAppConfig rt)\<lparr>database := \<lparr>path = ''./x.db''\<rparr>\<rparr>))"
proof (intro conjI)
  show "getFullConfiguration rt db = Inr DEFAULT_CONFIG"
    using assms by (simp add: getFullConfiguration_def getAllConfiguration_def configDataOf_def)
next
  have "validateByKey rt DATABASE_PATH ''./x.db'' = Inr ()"
    using x_db_valid
    by (simp add: validateByKey_def key_defs validateDatabasePath_def decodeDatabasePath_def)
  then show "setConfigurationValue rt now DATABASE_PATH ''./x.db'' db =
           (Inr (), db(''configuration'' \<mapsto> [\<lparr>key = DATABASE_PATH, rvalue = ''./x.db'', updated_at = now\<rparr>]))"
    using assms by (simp add: setConfigurationValue_def setConfiguration_def upsert_def)
next
  let ?row = "\<lparr>key = DATABASE_PATH, rvalue = ''./x.db'', updated_at = now\<rparr>"
  have cd: "configDataOf [?row] = [(DATABASE_PATH, ''./x.db'')]"
    by (simp add: configDataOf_def)
  have "deserializeConfig rt [(DATABASE_PATH, ''./x.db'')] =
          Inr ((defaultConfigToAppConfig rt)\<lparr>database := \<lparr>path = ''./x.db''\<rparr>\<rparr>)"
    using validateConfiguration_override_path[OF x_db_valid, of rt]
    by (simp add: deserializeConfig_def configObjectOf_single_path)
  then show "getFullConfiguration rt (db(''configuration'' \<mapsto> [?row])) =
           Inr (asUnknown ((defaultConfigToAppConfig rt)\<lparr>database := \<lparr>path = ''./x.db''\<rparr>\<rparr>))"
    by (simp add: getFullConfiguration_def getAllConfiguration_def cd)
qed

theorem getFull_defaults_and_single_override_witness:
  "emptyTableDb ''configuration'' = Some []
   \<and> getFullConfiguration sampleRuntime emptyTableDb = Inr DEFAULT_CONFIG
   \<and> getFullConfiguration sampleRuntime
        (emptyTableDb(''configuration'' \<mapsto>
           [\<lparr>key = DATABASE_PATH, rvalue = ''./x.db'', updated_at = ''t1''\<rparr>])) =
       Inr \<lparr>thetaData = \<lparr>baseUrl = ''http://localhost:25510'', maxConcurrentRequests = IntNum 4\<rparr>,
            processing = \<lparr>startDate = DateObj (ValidDate 1704067200000),
                          outputDirectory = ''./data/parquet'', tempDirectory = ''./data/temp''\<rparr>,
            database = \<lparr>path = ''./x.db''\<rparr>\<rparr>"
proof -
  have h: "emptyTableDb ''configuration'' = Some []" by (simp add: emptyTableDb_def)
  have e: "asUnknown ((defaultConfigToAppConfig sampleRuntime)\<lparr>database := \<lparr>path = ''./x.db''\<rparr>\<rparr>) =
       \<lparr>thetaData = \<lparr>baseUrl = ''http://localhost:25510'', maxConcurrentRequests = IntNum 4\<rparr>,
        processing = \<lparr>startDate = DateObj (ValidDate 1704067200000),
                      outputDirectory = ''./data/parquet'', tempDirectory = ''./data/temp''\<rparr>,
        database = \<lparr>path = ''./x.db''\<rparr>\<rparr>"
    by code_simp
  from getFull_defaults_and_single_override[where db = emptyTableDb and rt = sampleRuntime and now = "''t1''"] h
  show ?thesis unfolding e by blast
qed

lemma validate_stored_invalid:
  assumes look: "map_of cd k = Some v" and ne: "v \<noteq> []" and rej: "rejectedByValidator k v"
  shows "\<exists>e. validateConfiguration rt (configObjectOf cd) = Inl e"
proof (cases "validateConfiguration rt (configObjectOf cd)")
  case (Inl e)
  then show ?thesis by blast
next
  case (Inr c')
  from validateConfiguration_Inr[OF Inr]
  have url: "matchesHttpUrl (baseUrl (thetaData (configObjectOf cd)))"
    and num: "\<exists>i. maxConcurrentRequests (thetaData (configObjectOf cd)) = IntNum i \<and> 1 \<le> i \<and> i \<le> 10"
    and dbp: "matchesDotDb (path (database (configObjectOf cd)))"
    by blast+
  consider (url) "k = THETADATA_BASE_URL" "\<not> matchesHttpUrl v"
    | (max) "k = THETADATA_MAX_CONCURRENT_REQUESTS"
            "(case parseInt v of NaN \<Rightarrow> True | IntNum n \<Rightarrow> n < 1 \<or> 10 < n)"
    | (db) "k = DATABASE_PATH" "\<not> matchesDotDb v"
    using rej ne unfolding rejectedByValidator_def by (metis (full_types))
  then have False
  proof cases
    case url
    with look ne have "baseUrl (thetaData (configObjectOf cd)) = v"
      by (simp add: configObjectOf_def orDefault_def)
    with \<open>matchesHttpUrl (baseUrl (thetaData (configObjectOf cd)))\<close> url show False by simp
  next
    case max
    with look ne have "maxConcurrentRequests (thetaData (configObjectOf cd)) = parseInt v"
      by (simp add: configObjectOf_def orDefault_def)
    with num max show False by auto
  next
    case db
    with look ne have "path (database (configObjectOf cd)) = v"
      by (simp add: configObjectOf_def orDefault_def)
    with dbp db show False by simp
  qed
  then show ?thesis ..
qed

text \<open>
  C6 (amended). If the table holds, under its primary key, a record of a known key whose
  value is not empty and is refused by that key's validator, \<open>getFullConfiguration\<close>
  and \<open>validateFullConfiguration\<close> both fail with the same validation error, tagged
  \<open>config\<close>; no default is put in its place.
\<close>

theorem getFull_fails_on_invalid_stored_value:
  assumes "db ''configuration'' = Some rows" "distinct (map key rows)"
    and "r \<in> set rows" "rvalue r \<noteq> []" "rejectedByValidator (key r) (rvalue r)"
  shows "\<exists>val reason.
           getFullConfiguration rt db = Inl (ConfigurationValidationError ''config'' val reason)
         \<and> validateFullConfiguration rt db = Inl (ConfigurationValidationError ''config'' val reason)"
proof -
  let ?cd = "configDataOf (sort_key key rows)"
  have look: "map_of ?cd (key r) = Some (rvalue r)"
    using map_of_sorted_configData[OF assms(2) assms(3)] .
  then have nonempty: "?cd \<noteq> []" by auto
  from validate_stored_invalid[OF look assms(4) assms(5), of rt]
  obtain e where e: "validateConfiguration rt (configObjectOf ?cd) = Inl e" by blast
  have d: "deserializeConfig rt ?cd =
             Inl (ConfigurationValidationError ''config''
                    (JSON_stringify rt (jsonOfConfig (configObjectOf ?cd))) (formatErrorSync rt e))"
    using e by (simp add: deserializeConfig_def fromSchemaError_def)
  have g: "getAllConfiguration db = Inr (sort_key key rows)"
    using assms(1) by (simp add: getAllConfiguration_def)
  have "getFullConfiguration rt db =
          Inl (ConfigurationValidationError ''config''
                 (JSON_stringify rt (jsonOfConfig (configObjectOf ?cd))) (formatErrorSync rt e))"
    using g d nonempty by (simp add: getFullConfiguration_def)
  moreover have "validateFullConfiguration rt db =
          Inl (ConfigurationValidationError ''config''
                 (JSON_stringify rt (jsonOfConfig (configObjectOf ?cd))) (formatErrorSync rt e))"
    using g d by (simp add: validateFullConfiguration_def)
  ultimately show ?thesis by blast
qed

theorem getFull_fails_on_invalid_stored_value_witness:
  "badPathDb ''configuration'' =
     Some [\<lparr>key = DATABASE_PATH, rvalue = ''./database.txt'', updated_at = ''2024-06-01 10:00:00''\<rparr>]
   \<and> rejectedByValidator DATABASE_PATH ''./database.txt''
   \<and> (\<exists>val reason.
         getFullConfiguration sampleRuntime badPathDb = Inl (ConfigurationValidationError ''config'' val reason)
       \<and> validateFullConfiguration sampleRuntime badPathDb = Inl (ConfigurationValidationError ''config'' val reason))"
proof -
  let ?r = "\<lparr>key = DATABASE_PATH, rvalue = ''./database.txt'', updated_at = ''2024-06-01 10:00:00''\<rparr>"
  have h1: "badPathDb ''configuration'' = Some [?r]" by (simp add: badPathDb_def)
  have h2: "distinct (map key [?r])" by simp
  have h3: "?r \<in> set [?r]" by simp
  have h4: "rvalue ?r \<noteq> []" by simp
  have h5': "rejectedByValidator DATABASE_PATH ''./database.txt''" by code_simp
  then have h5: "rejectedByValidator (key ?r) (rvalue ?r)" by simp
  from getFull_fails_on_invalid_stored_value[where db = badPathDb and rows = "[?r]" and r = ?r
      and rt = sampleRuntime, OF h1 h2 h3 h4 h5] h1 h5'
  show ?thesis by blast
qed

text \<open>
  C6 as stated fails: a stored empty string for \<open>processing.outputDirectory\<close> breaks
  the non-empty rule, yet \<open>getFullConfiguration\<close> succeeds and returns the default
  output directory in its place (\<open>configData[key] || default\<close>).
\<close>

theorem getFull_substitutes_default_for_empty:
  "rejectedByValidator PROCESSING_OUTPUT_DIRECTORY []
   \<and> records emptyValueDb =
       [\<lparr>key = PROCESSING_OUTPUT_DIRECTORY, rvalue = [], updated_at = ''2024-06-01 10:00:00''\<rparr>]
   \<and> getFullConfiguration sampleRuntime emptyValueDb =
       Inr \<lparr>thetaData = \<lparr>baseUrl = ''http://localhost:25510'', maxConcurrentRequests = IntNum 4\<rparr>,
            processing = \<lparr>startDate = DateObj (ValidDate 1704067200000),
                          outputDirectory = ''./data/parquet'', tempDirectory = ''./data/temp''\<rparr>,
            database = \<lparr>path = ''./data/spx-pipeline.db''\<rparr>\<rparr>"
  by code_simp

lemma parseInt_numberToString:
  assumes "1 \<le> i" "i \<le> 10"
  shows "parseInt (numberToString (IntNum i)) = IntNum i \<and> numberToString (IntNum i) \<noteq> []"
proof -
  have c: "i = 1 \<or> i = 2 \<or> i = 3 \<or> i = 4 \<or> i = 5 \<or> i = 6 \<or> i = 7 \<or> i = 8 \<or> i = 9 \<or> i = 10"
    using assms by presburger
  have "parseInt (numberToString (IntNum 1)) = IntNum 1 \<and> numberToString (IntNum 1) \<noteq> []"
       "parseInt (numberToString (IntNum 2)) = IntNum 2 \<and> numberToString (IntNum 2) \<noteq> []"
       "parseInt (numberToString (IntNum 3)) = IntNum 3 \<and> numberToString (IntNum 3) \<noteq> []"
       "parseInt (numberToString (IntNum 4)) = IntNum 4 \<and> numberToString (IntNum 4) \<noteq> []"
       "parseInt (numberToString (IntNum 5)) = IntNum 5 \<and> numberToString (IntNum 5) \<noteq> []"
       "parseInt (numberToString (IntNum 6)) = IntNum 6 \<and> numberToString (IntNum 6) \<noteq> []"
       "parseInt (numberToString (IntNum 7)) = IntNum 7 \<and> numberToString (IntNum 7) \<noteq> []"
       "parseInt (numberToString (IntNum 8)) = IntNum 8 \<and> numberToString (IntNum 8) \<noteq> []"
       "parseInt (numberToString (IntNum 9)) = IntNum 9 \<and> numberToString (IntNum 9) \<noteq> []"
       "parseInt (numberToString (IntNum 10)) = IntNum 10 \<and> numberToString (IntNum 10) \<noteq> []"
    by code_simp+
  with c show ?thesis by blast
qed

lemma dateToString_nonempty: "dateToString d \<noteq> []"
  by (cases d) (simp_all add: dateToString_def Let_def split: prod.split)

lemma matchesHttpUrl_nonempty: "matchesHttpUrl v \<Longrightarrow> v \<noteq> []"
  by (auto simp add: matchesHttpUrl_def)

lemma configObjectOf_serialize_default:
  "configObjectOf (serializeConfig DEFAULT_CONFIG) = DEFAULT_CONFIG"
  by code_simp

lemma validateConfiguration_default:
  "validateConfiguration rt DEFAULT_CONFIG = Inr (defaultConfigToAppConfig rt)"
proof -
  have "validateConfiguration rt DEFAULT_CONFIG =
           Inr \<lparr>thetaData = \<lparr>baseUrl = baseUrl (thetaData DEFAULT_CONFIG), maxConcurrentRequests = IntNum 4\<rparr>,
                processing = \<lparr>startDate = newDate rt ''2024-01-01'',
                              outputDirectory = outputDirectory (processing DEFAULT_CONFIG),
                              tempDirectory = tempDirectory (processing DEFAULT_CONFIG)\<rparr>,
                database = \<lparr>path = path (database DEFAULT_CONFIG)\<rparr>\<rparr>"
    by (rule validateConfiguration_ok) (use default_fields_valid in simp_all)
  then show ?thesis
    by (simp add: defaultConfigToAppConfig_def DEFAULT_CONFIG_def)
qed

lemma deserialize_serialize_valid:
  assumes v: "isValidAppConfig c"
    and d: "newDate rt (dateToString (startDate (processing c))) = startDate (processing c)"
  shows "deserializeConfig rt (serializeConfig (asUnknown c)) = Inr c"
proof -
  from v obtain i where i: "maxConcurrentRequests (thetaData c) = IntNum i" "1 \<le> i" "i \<le> 10"
    by (cases "maxConcurrentRequests (thetaData c)") (auto simp add: isValidAppConfig_def)
  from v have url: "matchesHttpUrl (baseUrl (thetaData c))"
    and od: "1 \<le> length (outputDirectory (processing c))"
    and td: "1 \<le> length (tempDirectory (processing c))"
    and p: "1 \<le> length (path (database c))" "matchesDotDb (path (database c))"
    by (simp_all add: isValidAppConfig_def)
  let ?o = "configObjectOf (serializeConfig (asUnknown c))"
  have f1: "baseUrl (thetaData ?o) = baseUrl (thetaData c)"
    using matchesHttpUrl_nonempty[OF url]
    by (simp add: configObjectOf_def serializeConfig_def asUnknown_def key_defs orDefault_def)
  have f2: "maxConcurrentRequests (thetaData ?o) = IntNum i"
    using parseInt_numberToString[OF i(2) i(3)] i(1)
    by (simp add: configObjectOf_def serializeConfig_def asUnknown_def key_defs orDefault_def)
  have f3: "startDate (processing ?o) = Str (dateToString (startDate (processing c)))"
    using dateToString_nonempty[of "startDate (processing c)"]
    by (simp add: configObjectOf_def serializeConfig_def asUnknown_def key_defs orDefault_def
        dateValueToString_def)
  have f4: "outputDirectory (processing ?o) = outputDirectory (processing c)"
    using od
    by (auto simp add: configObjectOf_def serializeConfig_def asUnknown_def key_defs orDefault_def)
  have f5: "tempDirectory (processing ?o) = tempDirectory (processing c)"
    using td
    by (auto simp add: configObjectOf_def serializeConfig_def asUnknown_def key_defs orDefault_def)
  have f6: "path (database ?o) = path (database c)"
    using p(1)
    by (auto simp add: configObjectOf_def serializeConfig_def asUnknown_def key_defs orDefault_def)
  have "validateConfiguration rt ?o =
           Inr \<lparr>thetaData = \<lparr>baseUrl = baseUrl (thetaData ?o), maxConcurrentRequests = IntNum i\<rparr>,
                processing = \<lparr>startDate = newDate rt (dateToString (startDate (processing c))),
                              outputDirectory = outputDirectory (processing ?o),
                              tempDirectory = tempDirectory (processing ?o)\<rparr>,
                database = \<lparr>path = path (database ?o)\<rparr>\<rparr>"
    by (rule validateConfiguration_ok) (use f1 f2 f3 f4 f5 f6 url od td p i in simp_all)
  also have "\<dots> = Inr c"
    using f1 f4 f5 f6 d i(1) by simp
  finally show ?thesis by (simp add: deserializeConfig_def)
qed

text \<open>
  C9 (amended). \<open>validateConfiguration DEFAULT_CONFIG\<close> succeeds; serialising the
  defaults and deserialising the result gives the validated defaults; and a valid
  \<open>AppConfig\<close> round-trips through \<open>serializeConfig\<close> and \<open>deserializeConfig\<close>
  whenever the \<open>Date\<close> constructor reads its start date back from the text that
  \<open>Date.prototype.toString\<close> printed (which has no milliseconds).
\<close>

theorem defaults_validate_and_round_trip:
  "validateConfiguration rt DEFAULT_CONFIG = Inr (defaultConfigToAppConfig rt)
   \<and> deserializeConfig rt (serializeConfig DEFAULT_CONFIG) = Inr (defaultConfigToAppConfig rt)
   \<and> (isValidAppConfig c
        \<and> newDate rt (dateToString (startDate (processing c))) = startDate (processing c)
       \<longrightarrow> deserializeConfig rt (serializeConfig (asUnknown c)) = Inr c)"
  using validateConfiguration_default[of rt] deserialize_serialize_valid[of c rt]
  by (simp add: deserializeConfig_def configObjectOf_serialize_default)

theorem defaults_validate_and_round_trip_witness:
  "isValidAppConfig sampleConfig
   \<and> newDate sampleRuntime (dateToString (startDate (processing sampleConfig)))
       = startDate (processing sampleConfig)
   \<and> deserializeConfig sampleRuntime (serializeConfig (asUnknown sampleConfig)) = Inr sampleConfig"
proof -
  have h: "isValidAppConfig sampleConfig
   \<and> newDate sampleRuntime (dateToString (startDate (processing sampleConfig)))
       = startDate (processing sampleConfig)"
    by code_simp
  from defaults_validate_and_round_trip[where rt = sampleRuntime and c = sampleConfig] h
  show ?thesis by blast
qed

text \<open>
  C9 as stated fails: two valid configurations whose start dates differ only in the
  milliseconds serialise to the same record set, so the one with milliseconds comes
  back as the other.
\<close>

theorem round_trip_loses_milliseconds:
  "isValidAppConfig (startingAt 1704112496789)
   \<and> serializeConfig (asUnknown (startingAt 1704112496789))
       = serializeConfig (asUnknown (startingAt 1704112496000))
   \<and> deserializeConfig sampleRuntime (serializeConfig (asUnknown (startingAt 1704112496789)))
       = Inr (startingAt 1704112496000)
   \<and> startingAt 1704112496000 \<noteq> startingAt 1704112496789"
  by code_simp

end
